theory Spec2Isabelle
  imports Complex_Main
begin

section \<open>The career conversation bot (app.py): data\<close>

text \<open>
  The program is a single Python module. Its pure parts are translated as HOL
  functions; everything it does to the outside world (the chat completion call, the
  evaluator's HTTP request, the notification, the call of a tool) appends an event to a
  trace that is passed through every function, and the answers of the outside world are
  parameters collected in the record \<open>env\<close>. An exception is a value \<open>Inl e\<close> of a
  sum type. Python strings are modelled as HOL strings, one \<open>char\<close> for one code point
  (code points below 256).
\<close>

subsection \<open>Exceptions\<close>

text \<open>An exception object: its class name and the text \<open>str(e)\<close> gives.\<close>

datatype exn = Exn (exn_class: string) (exn_str: string)

text \<open>
  The interpreter's own exceptions. Their texts are abridged (CPython names the type
  of the object in them); nothing below depends on the wording.
\<close>

definition not_subscriptable :: exn where
  "not_subscriptable = Exn ''TypeError'' ''object is not subscriptable''"

definition not_iterable :: exn where
  "not_iterable = Exn ''TypeError'' ''object is not iterable''"

definition not_callable :: exn where
  "not_callable = Exn ''TypeError'' ''object is not callable''"

definition not_a_mapping :: exn where
  "not_a_mapping = Exn ''TypeError'' ''argument after ** must be a mapping''"

definition no_item_assignment :: exn where
  "no_item_assignment = Exn ''TypeError'' ''object does not support item assignment''"

definition not_serializable :: exn where
  "not_serializable = Exn ''TypeError'' ''Object is not JSON serializable''"

definition join_expected_str :: exn where
  "join_expected_str = Exn ''TypeError'' ''sequence item: expected str instance''"

definition no_attribute_get :: exn where
  "no_attribute_get = Exn ''AttributeError'' ''object has no attribute get''"

definition bad_keywords :: exn where
  "bad_keywords = Exn ''TypeError'' ''unexpected or missing keyword argument''"

subsection \<open>JSON values as Python sees them\<close>

text \<open>
  What \<open>json.loads\<close> returns: \<open>None\<close>, a bool, an int, a float, a str, a list, or a
  dict with string keys (kept as an association list, in insertion order). A float is
  kept as a real number; \<open>nan\<close> and the infinities, which the decoder also
  accepts, are left out.
\<close>

datatype json =
    JNull
  | JBool bool
  | JInt int
  | JFloat real
  | JStr string
  | JArr "json list"
  | JObj "(string \<times> json) list"

text \<open>Python's truth value of such a value, as \<open>not x\<close> and \<open>if x\<close> test it.\<close>

fun truthy :: "json \<Rightarrow> bool" where
  "truthy JNull = False"
| "truthy (JBool b) = b"
| "truthy (JInt i) = (i \<noteq> 0)"
| "truthy (JFloat r) = (r \<noteq> 0)"
| "truthy (JStr s) = (s \<noteq> [])"
| "truthy (JArr xs) = (xs \<noteq> [])"
| "truthy (JObj kvs) = (kvs \<noteq> [])"

text \<open>\<open>d.get(k, dflt)\<close>: only a dict has the method.\<close>

fun py_get :: "json \<Rightarrow> string \<Rightarrow> json \<Rightarrow> exn + json" where
  "py_get (JObj kvs) k dflt = Inr (case map_of kvs k of None \<Rightarrow> dflt | Some v \<Rightarrow> v)"
| "py_get _ k dflt = Inl no_attribute_get"

text \<open>Is \<open>sub\<close> a substring of \<open>s\<close> (the \<open>in\<close> of two strings).\<close>

fun substring :: "string \<Rightarrow> string \<Rightarrow> bool" where
  "substring sub [] = (sub = [])"
| "substring sub (c # cs) = (take (length sub) (c # cs) = sub \<or> substring sub cs)"

text \<open>
  \<open>k in x\<close> for a string \<open>k\<close>: a key of a dict, an element of a list, a substring
  of a string; anything else is not iterable.
\<close>

fun py_contains :: "string \<Rightarrow> json \<Rightarrow> exn + bool" where
  "py_contains k (JObj kvs) = Inr (map_of kvs k \<noteq> None)"
| "py_contains k (JArr xs) = Inr (JStr k \<in> set xs)"
| "py_contains k (JStr s) = Inr (substring k s)"
| "py_contains k _ = Inl not_iterable"

text \<open>\<open>x[k] = v\<close> for a string \<open>k\<close>: a dict takes it; a list and a str raise.\<close>

fun dict_set :: "(string \<times> json) list \<Rightarrow> string \<Rightarrow> json \<Rightarrow> (string \<times> json) list" where
  "dict_set [] k v = [(k, v)]"
| "dict_set ((k', v') # kvs) k v =
     (if k' = k then (k, v) # kvs else (k', v') # dict_set kvs k v)"

fun py_setitem :: "json \<Rightarrow> string \<Rightarrow> json \<Rightarrow> exn + json" where
  "py_setitem (JObj kvs) k v = Inr (JObj (dict_set kvs k v))"
| "py_setitem _ k v = Inl no_item_assignment"

text \<open>Iterating a value, as a \<open>for\<close> clause does.\<close>

fun py_iter :: "json \<Rightarrow> exn + json list" where
  "py_iter (JArr xs) = Inr xs"
| "py_iter (JObj kvs) = Inr (map (\<lambda>kv. JStr (fst kv)) kvs)"
| "py_iter (JStr s) = Inr (map (\<lambda>c. JStr [c]) s)"
| "py_iter _ = Inl not_iterable"

text \<open>\<open>str.strip()\<close> and the slice \<open>[:400]\<close>.\<close>

definition isspace :: "char \<Rightarrow> bool" where
  "isspace c = (c \<in> set [CHR 0x09, CHR 0x0A, CHR 0x0B, CHR 0x0C, CHR 0x0D, CHR 0x1C,
     CHR 0x1D, CHR 0x1E, CHR 0x1F, CHR 0x20, CHR 0x85, CHR 0xA0])"

definition strip :: "string \<Rightarrow> string" where
  "strip s = rev (dropWhile isspace (rev (dropWhile isspace s)))"

subsection \<open>Messages, tool calls and completions\<close>

text \<open>
  A message the program builds itself, or receives in \<open>history\<close>, is a dict with the keys
  \<open>role\<close> and \<open>content\<close>, and \<open>tool_call_id\<close> for a tool result. The message of a
  completion is an object of the client library (\<open>ChatCompletionMessage\<close>), read by
  attribute; \<open>chat\<close> appends it to \<open>messages\<close> as it is, so the list holds both kinds.
\<close>

datatype dict_msg = DictMsg (role: string) (msg_content: string) (tool_call_id: "string option")

datatype tool_call = ToolCall (tc_id: string) (function_name: string) (function_arguments: string)

datatype chat_completion_message =
  ChatCompletionMessage (content: "string option") (tool_calls: "tool_call list option")

datatype chat_completion =
  ChatCompletion (finish_reason: string) (choice_message: chat_completion_message)

datatype message = Dict dict_msg | Obj chat_completion_message

text \<open>\<open>m["role"]\<close>: a dict has the key; the library's object cannot be subscripted.\<close>

fun get_role :: "message \<Rightarrow> exn + string" where
  "get_role (Dict d) = Inr (role d)"
| "get_role (Obj m) = Inl not_subscriptable"

subsection \<open>The trace of effects and the outside world\<close>

datatype event =
    GenCall "message list"
  | Invoke string "(string \<times> json) list"
  | PushoverPost json
  | EvalCall "string option" string "dict_msg list"
  | AnthropicPost string
  | Retry nat

type_synonym trace = "event list"

text \<open>
  \<^item> \<open>GenCall messages\<close>: a call of \<open>chat.completions.create\<close> with these messages;
  \<^item> \<open>Invoke name kwargs\<close>: the call \<open>tool(**arguments)\<close> of the global \<open>name\<close>;
  \<^item> \<open>PushoverPost x\<close>: \<open>push\<close> posts \<open>x\<close> as the message;
  \<^item> \<open>EvalCall reply message history\<close>: a call of \<open>_evaluate_with_anthropic\<close>;
  \<^item> \<open>AnthropicPost body\<close>: the evaluator's \<open>requests.post\<close> with this body;
  \<^item> \<open>Retry n\<close>: the statement \<open>attempts += 1\<close>, with the new value of \<open>attempts\<close>.
\<close>

text \<open>What a call of a module global returns: a value \<open>json.dumps\<close> accepts, or not.\<close>

datatype pyval = Ser json | Opaque

text \<open>
  A value bound in the module's namespace: something callable (a function or a class),
  or any other object, of which only the truth value matters. A callable is given the
  keyword arguments and the events so far; it returns or raises, and it may have posted
  notifications, which are listed beside its result.
\<close>

datatype gval =
    GFun "(string \<times> json) list \<Rightarrow> trace \<Rightarrow> (exn + pyval) \<times> json list"
  | GObj bool

record env =
  openai_create :: "trace \<Rightarrow> message list \<Rightarrow> exn + chat_completion"
  getenv :: "string \<Rightarrow> string option"
  anthropic_post :: "trace \<Rightarrow> string \<Rightarrow> exn + json"
  json_loads :: "string \<Rightarrow> exn + json"
  json_dumps :: "bool \<Rightarrow> json \<Rightarrow> string"
  py_str :: "json \<Rightarrow> string"
  module_globals :: "string \<Rightarrow> gval option"

text \<open>
  \<^item> \<open>openai_create tr messages\<close>: the answer of \<open>chat.completions.create\<close> to the
    request \<open>messages\<close> after the events \<open>tr\<close>, or the exception it raises;
  \<^item> \<open>getenv\<close>: \<open>os.getenv\<close>;
  \<^item> \<open>anthropic_post tr body\<close>: the decoded body \<open>r.json()\<close> of the evaluator's
    answer, or the exception raised by \<open>requests.post\<close>, \<open>raise_for_status\<close> or
    \<open>r.json\<close>;
  \<^item> \<open>json_loads\<close>, \<open>json_dumps ensure_ascii\<close>: the standard library's decoder and
    encoder;
  \<^item> \<open>py_str\<close>: \<open>str(x)\<close> for a value that is not a string;
  \<^item> \<open>module_globals\<close>: \<open>globals()\<close> of the module.
\<close>

text \<open>A value inside an f-string: a string stands for itself.\<close>

definition fmt :: "env \<Rightarrow> json \<Rightarrow> string" where
  "fmt E v = (case v of JStr s \<Rightarrow> s | _ \<Rightarrow> py_str E v)"

definition fmt_reply :: "string option \<Rightarrow> string" where
  "fmt_reply r = (case r of None \<Rightarrow> ''None'' | Some s \<Rightarrow> s)"

section \<open>The tools\<close>

text \<open>
  \<open>push(text)\<close>: without both Pushover credentials it returns at once; otherwise it
  posts the text. Every exception of the request is caught inside, and the function
  returns \<open>None\<close>.
\<close>

definition falsy_str :: "string option \<Rightarrow> bool" where
  "falsy_str v = (case v of None \<Rightarrow> True | Some s \<Rightarrow> s = [])"

definition push :: "env \<Rightarrow> json \<Rightarrow> json list" where
  "push E txt =
     (if falsy_str (getenv E ''PUSHOVER_TOKEN'') \<or> falsy_str (getenv E ''PUSHOVER_USER'')
      then []
      else [txt])"

text \<open>The two tools return their confirmation, beside what \<open>push\<close> posted.\<close>

definition record_user_details :: "env \<Rightarrow> json \<Rightarrow> json \<Rightarrow> json \<Rightarrow> json \<times> json list" where
  "record_user_details E email nm notes =
     (let message = ''New contact: '' @ fmt E nm @ ''\<newline>Email: '' @ fmt E email
                    @ ''\<newline>Notes: '' @ fmt E notes
      in (JObj [(''recorded'', JStr ''ok'')], push E (JStr message)))"

definition record_unknown_question :: "env \<Rightarrow> json \<Rightarrow> json \<times> json list" where
  "record_unknown_question E question =
     (JObj [(''recorded'', JStr ''ok'')],
      push E (JStr (''Unanswered question: '' @ fmt E question)))"

text \<open>
  Binding keyword arguments to a signature: every keyword must be a parameter and every
  parameter without a default must be given, or the call raises TypeError.
\<close>

definition bind_kwargs ::
  "string list \<Rightarrow> (string \<times> json) list \<Rightarrow> (string \<times> json) list \<Rightarrow> exn + (string \<Rightarrow> json)" where
  "bind_kwargs required defaults kw =
     (if list_all (\<lambda>k. List.member required k \<or> List.member (map fst defaults) k) (map fst kw)
         \<and> list_all (\<lambda>k. List.member (map fst kw) k) required
      then Inr (\<lambda>k. case map_of kw k of Some v \<Rightarrow> v
                    | None \<Rightarrow> (case map_of defaults k of Some d \<Rightarrow> d | None \<Rightarrow> JNull))
      else Inl bad_keywords)"

definition push_global :: "env \<Rightarrow> gval" where
  "push_global E = GFun (\<lambda>kw tr.
     case bind_kwargs [''text''] [] kw of
       Inl e \<Rightarrow> (Inl e, [])
     | Inr a \<Rightarrow> (Inr (Ser JNull), push E (a ''text'')))"

definition record_user_details_global :: "env \<Rightarrow> gval" where
  "record_user_details_global E = GFun (\<lambda>kw tr.
     case bind_kwargs [''email'']
            [(''name'', JStr ''Name not provided''), (''notes'', JStr ''not provided'')] kw of
       Inl e \<Rightarrow> (Inl e, [])
     | Inr a \<Rightarrow>
         (case record_user_details E (a ''email'') (a ''name'') (a ''notes'') of
            (r, posted) \<Rightarrow> (Inr (Ser r), posted)))"

definition record_unknown_question_global :: "env \<Rightarrow> gval" where
  "record_unknown_question_global E = GFun (\<lambda>kw tr.
     case bind_kwargs [''question''] [] kw of
       Inl e \<Rightarrow> (Inl e, [])
     | Inr a \<Rightarrow>
         (case record_unknown_question E (a ''question'') of
            (r, posted) \<Rightarrow> (Inr (Ser r), posted)))"

text \<open>
  The module's namespace: the three functions above, the three tool schemas (non-empty
  dicts and a non-empty list), and whatever else it holds (the imported names, the class
  \<open>Me\<close>, and the entries the interpreter puts there, such as \<open>__name__\<close> and
  \<open>__package__\<close>), given by \<open>others\<close>.
\<close>

definition app_globals :: "env \<Rightarrow> (string \<Rightarrow> gval option) \<Rightarrow> string \<Rightarrow> gval option" where
  "app_globals E others n =
     (if n = ''push'' then Some (push_global E)
      else if n = ''record_user_details'' then Some (record_user_details_global E)
      else if n = ''record_unknown_question'' then Some (record_unknown_question_global E)
      else if n = ''record_user_details_json'' then Some (GObj True)
      else if n = ''record_unknown_question_json'' then Some (GObj True)
      else if n = ''tools'' then Some (GObj True)
      else others n)"

subsection \<open>handle_tool_call\<close>

text \<open>\<open>tool(**arguments)\<close>: the arguments must be a mapping and the tool callable.\<close>

definition call_global :: "gval \<Rightarrow> string \<Rightarrow> json \<Rightarrow> trace \<Rightarrow> (exn + pyval) \<times> trace" where
  "call_global g tool_name arguments tr =
     (case arguments of
        JObj kw \<Rightarrow>
          (case g of
             GFun f \<Rightarrow>
               (case f kw tr of
                  (r, posted) \<Rightarrow> (r, tr @ [Invoke tool_name kw] @ map PushoverPost posted))
           | GObj b \<Rightarrow> (Inl not_callable, tr))
      | _ \<Rightarrow> (Inl not_a_mapping, tr))"

definition gval_truthy :: "gval \<Rightarrow> bool" where
  "gval_truthy g = (case g of GFun f \<Rightarrow> True | GObj b \<Rightarrow> b)"

definition dumps_result :: "env \<Rightarrow> pyval \<Rightarrow> exn + string" where
  "dumps_result E r = (case r of Ser j \<Rightarrow> Inr (json_dumps E True j) | Opaque \<Rightarrow> Inl not_serializable)"

text \<open>The body of the loop over \<open>tool_calls\<close>: one call, one tool message.\<close>

definition dispatch :: "env \<Rightarrow> tool_call \<Rightarrow> trace \<Rightarrow> (exn + dict_msg) \<times> trace" where
  "dispatch E tc tr =
     (let tool_name = function_name tc in
      case json_loads E (function_arguments tc) of
        Inl e \<Rightarrow> (Inl e, tr)
      | Inr arguments \<Rightarrow>
          (case (case module_globals E tool_name of
                   None \<Rightarrow> (Inr (Ser (JObj [])), tr)
                 | Some tool \<Rightarrow>
                     if gval_truthy tool then call_global tool tool_name arguments tr
                     else (Inr (Ser (JObj [])), tr)) of
             (Inl e, tr') \<Rightarrow> (Inl e, tr')
           | (Inr result, tr') \<Rightarrow>
               (case dumps_result E result of
                  Inl e \<Rightarrow> (Inl e, tr')
                | Inr s \<Rightarrow> (Inr (DictMsg ''tool'' s (Some (tc_id tc))), tr'))))"

fun tool_loop :: "env \<Rightarrow> tool_call list \<Rightarrow> dict_msg list \<Rightarrow> trace \<Rightarrow> (exn + dict_msg list) \<times> trace" where
  "tool_loop E [] results tr = (Inr results, tr)"
| "tool_loop E (tc # tcs) results tr =
     (case dispatch E tc tr of
        (Inl e, tr') \<Rightarrow> (Inl e, tr')
      | (Inr r, tr') \<Rightarrow> tool_loop E tcs (results @ [r]) tr')"

definition handle_tool_call :: "env \<Rightarrow> tool_call list \<Rightarrow> trace \<Rightarrow> (exn + dict_msg list) \<times> trace" where
  "handle_tool_call E tcs tr = tool_loop E tcs [] tr"

section \<open>The class Me\<close>

record me =
  name :: string
  linkedin :: string
  resume :: string
  summary :: string

definition system_prompt :: "me \<Rightarrow> string" where
  "system_prompt self =
     ''You are acting as '' @ name self @ ''. You are answering questions on '' @ name self
     @ CHR 0x27 # ''s website, particularly questions related to '' @ name self
     @ CHR 0x27 # ''s career, background, skills and experience. Your responsibility is to represent ''
     @ name self @ '' for interactions on the website as faithfully as possible. ''
     @ ''You are given a summary, a LinkedIn profile, and a resume which you can use to answer questions. ''
     @ ''Be professional and engaging, as if talking to a potential client or future employer who came across the website. ''
     @ ''If you don't know the answer to any question, use your record_unknown_question tool to record the question that you couldn't answer. ''
     @ ''If the user is engaging in discussion, try to steer them towards getting in touch via email; ask for their email and record it using your record_user_details tool. ''
     @ ''\<newline>\<newline>## Summary:\<newline>'' @ summary self
     @ ''\<newline>\<newline>## LinkedIn Profile:\<newline>'' @ linkedin self
     @ ''\<newline>\<newline>## Resume:\<newline>'' @ resume self @ ''\<newline>\<newline>''
     @ ''With this context, please chat with the user, always staying in character as ''
     @ name self @ ''.''"

subsection \<open>_evaluate_with_anthropic\<close>

definition rubric :: string where
  "rubric =
     ''You are an evaluator that decides whether a response is acceptable. ''
     @ ''Judge helpfulness, professionalism, factuality with respect to the provided persona documents, and clarity. ''
     @ ''Return JSON with: is_acceptable (true/false) and feedback (1-2 short sentences).''"

text \<open>A dict message as the JSON value \<open>json.dumps\<close> is given.\<close>

definition msg_json :: "dict_msg \<Rightarrow> json" where
  "msg_json d =
     JObj ([(''role'', JStr (role d)), (''content'', JStr (msg_content d))]
           @ (case tool_call_id d of None \<Rightarrow> [] | Some i \<Rightarrow> [(''tool_call_id'', JStr i)]))"

definition eval_prompt :: "env \<Rightarrow> string option \<Rightarrow> string \<Rightarrow> dict_msg list \<Rightarrow> string" where
  "eval_prompt E reply message history_messages =
     (let convo = json_dumps E False (JArr (map msg_json history_messages))
      in ''Conversation so far (JSON array of messages):\<newline>'' @ convo
         @ ''\<newline>\<newline>User message: '' @ message
         @ ''\<newline>\<newline>Agent reply: '' @ fmt_reply reply
         @ ''\<newline>\<newline>Provide only the JSON object.'')"

definition eval_payload :: "string \<Rightarrow> json" where
  "eval_payload prompt =
     JObj [(''model'', JStr ''claude-3-7-sonnet-latest''),
           (''max_tokens'', JInt 300),
           (''messages'', JArr [JObj [(''role'', JStr ''system''), (''content'', JStr rubric)],
                              JObj [(''role'', JStr ''user''), (''content'', JStr prompt)]])]"

text \<open>
  \<open>parts = out.get("content", [])\<close> and
  \<open>"".join([p.get("text", "") for p in parts if isinstance(p, dict)])\<close>.
\<close>

fun part_texts :: "json list \<Rightarrow> json list" where
  "part_texts [] = []"
| "part_texts (JObj kvs # ps) =
     (case map_of kvs ''text'' of None \<Rightarrow> JStr [] | Some v \<Rightarrow> v) # part_texts ps"
| "part_texts (p # ps) = part_texts ps"

fun join_str :: "json list \<Rightarrow> exn + string" where
  "join_str [] = Inr []"
| "join_str (JStr s # xs) = (case join_str xs of Inl e \<Rightarrow> Inl e | Inr r \<Rightarrow> Inr (s @ r))"
| "join_str (x # xs) = Inl join_expected_str"

definition response_text :: "json \<Rightarrow> exn + string" where
  "response_text out =
     (case py_get out ''content'' (JArr []) of
        Inl e \<Rightarrow> Inl e
      | Inr parts \<Rightarrow>
          (case py_iter parts of
             Inl e \<Rightarrow> Inl e
           | Inr ps \<Rightarrow> join_str (part_texts ps)))"

text \<open>The two \<open>if ... not in data\<close> statements.\<close>

definition fill_missing :: "string \<Rightarrow> json \<Rightarrow> json \<Rightarrow> exn + json" where
  "fill_missing k v data =
     (case py_contains k data of
        Inl e \<Rightarrow> Inl e
      | Inr b \<Rightarrow> if \<not> b then py_setitem data k v else Inr data)"

text \<open>The body of the \<open>try\<close> statement, after the request has been built.\<close>

definition evaluate_try :: "env \<Rightarrow> trace \<Rightarrow> string \<Rightarrow> exn + json" where
  "evaluate_try E tr body =
     (case anthropic_post E tr body of
        Inl e \<Rightarrow> Inl e
      | Inr out \<Rightarrow>
          (case response_text out of
             Inl e \<Rightarrow> Inl e
           | Inr txt \<Rightarrow>
               (let data = (case json_loads E txt of
                              Inl e \<Rightarrow> JObj [(''is_acceptable'', JBool True),
                                             (''feedback'', JStr (take 400 (strip txt)))]
                            | Inr d \<Rightarrow> d)
                in case fill_missing ''is_acceptable'' (JBool True) data of
                     Inl e \<Rightarrow> Inl e
                   | Inr data1 \<Rightarrow> fill_missing ''feedback'' (JStr []) data1)))"

definition evaluator_unavailable :: json where
  "evaluator_unavailable =
     JObj [(''is_acceptable'', JBool True), (''feedback'', JStr ''Evaluator unavailable'')]"

definition evaluate_with_anthropic ::
  "env \<Rightarrow> string option \<Rightarrow> string \<Rightarrow> dict_msg list \<Rightarrow> trace \<Rightarrow> (exn + json) \<times> trace" where
  "evaluate_with_anthropic E reply message history_messages tr =
     (let tr0 = tr @ [EvalCall reply message history_messages] in
      if falsy_str (getenv E ''ANTHROPIC_API_KEY'') then (Inr evaluator_unavailable, tr0)
      else
        (let body = json_dumps E True (eval_payload (eval_prompt E reply message history_messages))
         in (case evaluate_try E tr0 body of
               Inl e \<Rightarrow> Inr (JObj [(''is_acceptable'', JBool True), (''feedback'', JStr (exn_str e))])
             | Inr data \<Rightarrow> Inr data,
             tr0 @ [AnthropicPost body])))"

subsection \<open>chat\<close>

text \<open>
  The loop \<open>while not done\<close>: one request per round. It has no bound of its own, so it
  is a partial function: \<open>None\<close> is a run that never leaves the loop. It returns the
  last \<open>response\<close> and the list \<open>messages\<close> as the loop left it.
\<close>

partial_function (option) gen_loop ::
  "env \<Rightarrow> message list \<Rightarrow> trace \<Rightarrow> ((exn + chat_completion \<times> message list) \<times> trace) option" where
  "gen_loop E messages tr =
     (case openai_create E tr messages of
        Inl e \<Rightarrow> Some (Inl e, tr @ [GenCall messages])
      | Inr response \<Rightarrow>
          if finish_reason response = ''tool_calls'' then
            (case tool_calls (choice_message response) of
               None \<Rightarrow> Some (Inl not_iterable, tr @ [GenCall messages])
             | Some tcs \<Rightarrow>
                 (case handle_tool_call E tcs (tr @ [GenCall messages]) of
                    (Inl e, tr') \<Rightarrow> Some (Inl e, tr')
                  | (Inr results, tr') \<Rightarrow>
                      gen_loop E (messages @ [Obj (choice_message response)] @ map Dict results) tr'))
          else Some (Inr (response, messages), tr @ [GenCall messages]))"

text \<open>
  \<open>[m for m in messages if m["role"] in ("system", "user", "assistant", "tool")]\<close>:
  the subscript is evaluated for every element, in order.
\<close>

fun eval_history_of :: "message list \<Rightarrow> exn + dict_msg list" where
  "eval_history_of [] = Inr []"
| "eval_history_of (m # ms) =
     (case get_role m of
        Inl e \<Rightarrow> Inl e
      | Inr r \<Rightarrow>
          (case eval_history_of ms of
             Inl e \<Rightarrow> Inl e
           | Inr ds \<Rightarrow>
               Inr (if r \<in> set [''system'', ''user'', ''assistant'', ''tool'']
                    then (case m of Dict d \<Rightarrow> d # ds | Obj c \<Rightarrow> ds) else ds)))"

text \<open>
  One generation attempt: the loop, the reply, the history for the evaluator and the
  evaluation. The source has these statements twice, before the retry loop and inside
  it.
\<close>

definition attempt ::
  "env \<Rightarrow> message list \<Rightarrow> string \<Rightarrow> trace \<Rightarrow> ((exn + string option \<times> json) \<times> trace) option" where
  "attempt E messages message tr =
     (case gen_loop E messages tr of
        None \<Rightarrow> None
      | Some (Inl e, tr1) \<Rightarrow> Some (Inl e, tr1)
      | Some (Inr (response, messages'), tr1) \<Rightarrow>
          (let reply = content (choice_message response) in
           case eval_history_of messages' of
             Inl e \<Rightarrow> Some (Inl e, tr1)
           | Inr eval_history \<Rightarrow>
               (case evaluate_with_anthropic E reply message eval_history tr1 of
                  (Inl e, tr2) \<Rightarrow> Some (Inl e, tr2)
                | (Inr evaluation, tr2) \<Rightarrow> Some (Inr (reply, evaluation), tr2))))"

definition rejection_block :: "string \<Rightarrow> string \<Rightarrow> string" where
  "rejection_block reply feedback =
     ''\<newline>\<newline>## Previous answer rejected\<newline>''
     @ ''Your previous answer was:\<newline>'' @ reply @ ''\<newline>\<newline>''
     @ ''Reason for rejection (from evaluator):\<newline>'' @ feedback @ ''\<newline>\<newline>''
     @ ''Revise your answer to address the feedback while staying faithful to the provided documents.''"

definition initial_messages :: "string \<Rightarrow> dict_msg list \<Rightarrow> string \<Rightarrow> message list" where
  "initial_messages system history message =
     [Dict (DictMsg ''system'' system None)] @ map Dict history
     @ [Dict (DictMsg ''user'' message None)]"

text \<open>The loop \<open>while not evaluation.get("is_acceptable", True) and attempts < 2\<close>.\<close>

function retry_loop ::
  "env \<Rightarrow> string \<Rightarrow> dict_msg list \<Rightarrow> string \<Rightarrow> nat \<Rightarrow> json \<Rightarrow> string option \<Rightarrow> trace
     \<Rightarrow> ((exn + string option) \<times> trace) option" where
  "retry_loop E base_system history message attempts evaluation reply tr =
     (case py_get evaluation ''is_acceptable'' (JBool True) of
        Inl e \<Rightarrow> Some (Inl e, tr)
      | Inr acceptable \<Rightarrow>
          if \<not> truthy acceptable \<and> attempts < 2 then
            (case py_get evaluation ''feedback'' (JStr []) of
               Inl e \<Rightarrow> Some (Inl e, tr @ [Retry (attempts + 1)])
             | Inr feedback \<Rightarrow>
                 (let improved_system =
                        base_system @ rejection_block (fmt_reply reply) (fmt E feedback)
                  in case attempt E (initial_messages improved_system history message) message
                            (tr @ [Retry (attempts + 1)]) of
                       None \<Rightarrow> None
                     | Some (Inl e, tr') \<Rightarrow> Some (Inl e, tr')
                     | Some (Inr (reply', evaluation'), tr') \<Rightarrow>
                         retry_loop E base_system history message (attempts + 1)
                           evaluation' reply' tr'))
          else Some (Inr reply, tr))"
  by pat_completeness auto
termination
  by (relation "measure (\<lambda>(E, base_system, history, message, attempts, rest). 2 - attempts)") auto

declare retry_loop.simps [simp del]

definition chat ::
  "env \<Rightarrow> me \<Rightarrow> string \<Rightarrow> dict_msg list \<Rightarrow> trace \<Rightarrow> ((exn + string option) \<times> trace) option" where
  "chat E self message history tr =
     (let base_system = system_prompt self in
      case attempt E (initial_messages base_system history message) message tr of
        None \<Rightarrow> None
      | Some (Inl e, tr') \<Rightarrow> Some (Inl e, tr')
      | Some (Inr (reply, evaluation), tr') \<Rightarrow>
          retry_loop E base_system history message 0 evaluation reply tr')"

section \<open>Reading a trace\<close>

fun gen_calls :: "trace \<Rightarrow> message list list" where
  "gen_calls [] = []"
| "gen_calls (GenCall ms # tr) = ms # gen_calls tr"
| "gen_calls (ev # tr) = gen_calls tr"

fun retries :: "trace \<Rightarrow> nat list" where
  "retries [] = []"
| "retries (Retry n # tr) = n # retries tr"
| "retries (ev # tr) = retries tr"

fun eval_calls :: "trace \<Rightarrow> (string option \<times> string \<times> dict_msg list) list" where
  "eval_calls [] = []"
| "eval_calls (EvalCall reply message history # tr) = (reply, message, history) # eval_calls tr"
| "eval_calls (ev # tr) = eval_calls tr"

fun anthropic_posts :: "trace \<Rightarrow> string list" where
  "anthropic_posts [] = []"
| "anthropic_posts (AnthropicPost body # tr) = body # anthropic_posts tr"
| "anthropic_posts (ev # tr) = anthropic_posts tr"

fun invokes :: "trace \<Rightarrow> (string \<times> (string \<times> json) list) list" where
  "invokes [] = []"
| "invokes (Invoke n kw # tr) = (n, kw) # invokes tr"
| "invokes (ev # tr) = invokes tr"

text \<open>The ids of the calls an assistant message holds.\<close>

definition call_ids :: "chat_completion_message \<Rightarrow> string list" where
  "call_ids m = (case tool_calls m of None \<Rightarrow> [] | Some tcs \<Rightarrow> map tc_id tcs)"

text \<open>
  The invariant of the data model on a message sequence: every tool message comes
  after an assistant message that holds a call with its id. \<open>seen\<close> are the ids of
  the calls met so far.
\<close>

fun tools_matched :: "string list \<Rightarrow> message list \<Rightarrow> bool" where
  "tools_matched seen [] = True"
| "tools_matched seen (Obj m # ms) = tools_matched (seen @ call_ids m) ms"
| "tools_matched seen (Dict d # ms) =
     ((if role d = ''tool''
       then (case tool_call_id d of None \<Rightarrow> False | Some i \<Rightarrow> List.member seen i)
       else True)
      \<and> tools_matched seen ms)"




subsection \<open>Auxiliary predicates\<close>

text \<open>Events of a tool round: calls of globals and notifications only.\<close>

definition tool_events :: "trace \<Rightarrow> bool" where
  "tool_events new = (gen_calls new = [] \<and> retries new = [] \<and> eval_calls new = []
     \<and> anthropic_posts new = [])"

text \<open>What a run of the loop that ends leaves behind.\<close>

definition loop_post ::
  "env \<Rightarrow> message list \<Rightarrow> trace \<Rightarrow> (exn + chat_completion \<times> message list) \<times> trace \<Rightarrow> bool" where
  "loop_post E msgs tr y =
     ((\<exists>new. snd y = tr @ GenCall msgs # new \<and> retries new = [] \<and> eval_calls new = []
          \<and> anthropic_posts new = [])
      \<and> (\<forall>r msgs'. fst y = Inr (r, msgs') \<longrightarrow>
            finish_reason r \<noteq> ''tool_calls''
            \<and> ((msgs' = msgs \<and> snd y = tr @ [GenCall msgs] \<and> openai_create E tr msgs = Inr r)
                \<or> (\<exists>c suffix. msgs' = msgs @ Obj c # suffix))))"

text \<open>The ids of the calls in the assistant messages of a sequence.\<close>

fun seen_ids :: "message list \<Rightarrow> string list" where
  "seen_ids [] = []"
| "seen_ids (Obj c # ms) = call_ids c @ seen_ids ms"
| "seen_ids (Dict d # ms) = seen_ids ms"

text \<open>The invariant of the message sequence, for a run of the loop that ends.\<close>

definition loop_inv ::
  "message list \<Rightarrow> trace \<Rightarrow> (exn + chat_completion \<times> message list) \<times> trace \<Rightarrow> bool" where
  "loop_inv msgs tr y =
     (tools_matched [] msgs \<longrightarrow>
        (\<exists>new. snd y = tr @ new \<and> list_all (tools_matched []) (gen_calls new))
        \<and> (\<forall>r msgs'. fst y = Inr (r, msgs') \<longrightarrow> tools_matched [] msgs'))"

section \<open>Example runs\<close>

text \<open>
  Concrete answers of the outside world, for the runs the theorems are tried on. The
  decoder and the encoder are tables: they agree with \<open>json.loads\<close> and
  \<open>json.dumps\<close> on the texts and values listed, which are the ones these runs need
  the result of; the decoder rejects every other text, with the message of a text that
  does not begin a JSON value.
\<close>

definition example_loads :: "string \<Rightarrow> exn + json" where
  \<open>example_loads s =
     (if s = ''{"email": "a@b.com"}'' then Inr (JObj [(''email'', JStr ''a@b.com'')])
      else if s = ''{}'' then Inr (JObj [])
      else if s = ''{"text": "hello"}'' then Inr (JObj [(''text'', JStr ''hello'')])
      else if s = ''{"is_acceptable": false, "feedback": "too informal"}''
        then Inr (JObj [(''is_acceptable'', JBool False), (''feedback'', JStr ''too informal'')])
      else if s = ''{"score": 3}'' then Inr (JObj [(''score'', JInt 3)])
      else if s = ''[]'' then Inr (JArr [])
      else Inl (Exn ''JSONDecodeError'' ''Expecting value: line 1 column 1 (char 0)''))\<close>

definition example_dumps :: "bool \<Rightarrow> json \<Rightarrow> string" where
  \<open>example_dumps ensure_ascii j =
     (if j = JObj [] then ''{}''
      else if j = JObj [(''recorded'', JStr ''ok'')] then ''{"recorded": "ok"}''
      else if j = JNull then ''null''
      else ''<json>'')\<close>

definition example_str :: "json \<Rightarrow> string" where
  "example_str j =
     (if j = JNull then ''None'' else if j = JBool True then ''True''
      else if j = JBool False then ''False'' else ''<str>'')"

text \<open>
  Some of what the namespace holds besides the module's own definitions: the imported
  module \<open>json\<close>, the class \<open>Me\<close> (called without arguments it builds an object, which
  \<open>json.dumps\<close> cannot encode), and \<open>__package__\<close>, which the interpreter sets to
  \<open>None\<close> in a script and to the empty string in a top-level module.
\<close>

definition example_others :: "string \<Rightarrow> gval option" where
  "example_others n =
     (if n = ''json'' then Some (GObj True)
      else if n = ''Me'' then
        Some (GFun (\<lambda>kw tr. if kw = [] then (Inr Opaque, []) else (Inl bad_keywords, [])))
      else if n = ''__package__'' then Some (GObj False)
      else None)"

definition base_env :: env where
  "base_env =
     \<lparr> openai_create = (\<lambda>tr messages.
         Inr (ChatCompletion ''stop''
                (ChatCompletionMessage (Some ''I have ten years of experience.'') None))),
       getenv = (\<lambda>k. if k = ''PUSHOVER_TOKEN'' then Some ''t0''
                      else if k = ''PUSHOVER_USER'' then Some ''u0'' else None),
       anthropic_post = (\<lambda>tr body. Inl (Exn ''ConnectionError'' ''connection refused'')),
       json_loads = example_loads,
       json_dumps = example_dumps,
       py_str = example_str,
       module_globals = (\<lambda>n. None) \<rparr>"

text \<open>No evaluator key; the model answers at once.\<close>

definition plain_env :: env where
  "plain_env = base_env \<lparr> module_globals := app_globals base_env example_others \<rparr>"

text \<open>
  The scenario of the spec: the model first calls \<open>record_user_details\<close>, then
  answers.
\<close>

definition tool_round_env :: env where
  \<open>tool_round_env =
     plain_env \<lparr> openai_create := (\<lambda>tr messages.
       if gen_calls tr = [] then
         Inr (ChatCompletion ''tool_calls''
                (ChatCompletionMessage None
                   (Some [ToolCall ''call_1'' ''record_user_details'' ''{"email": "a@b.com"}''])))
       else
         Inr (ChatCompletion ''stop''
                (ChatCompletionMessage (Some ''Thanks, I will be in touch.'') None))) \<rparr>\<close>

text \<open>
  The evaluator is configured and rejects every reply with the same feedback; the
  model answers at once, each time with another text.
\<close>

definition rejecting_env :: env where
  \<open>rejecting_env =
     plain_env \<lparr>
       openai_create := (\<lambda>tr messages.
         Inr (ChatCompletion ''stop''
                (ChatCompletionMessage
                   (Some (if length (gen_calls tr) = 0 then ''Hey, I code stuff.''
                          else if length (gen_calls tr) = 1 then ''I build software.''
                          else ''I am a software engineer.'')) None))),
       getenv := (\<lambda>k. if k = ''ANTHROPIC_API_KEY'' then Some ''sk-0'' else None),
       anthropic_post := (\<lambda>tr body.
         Inr (JObj [(''content'',
                JArr [JObj [(''type'', JStr ''text''),
                            (''text'', JStr ''{"is_acceptable": false, "feedback": "too informal"}'')]])])) \<rparr>\<close>

text \<open>The model asks for an unknown tool \<open>n\<close> times, then answers.\<close>

definition rounds_env :: "nat \<Rightarrow> env" where
  "rounds_env n =
     plain_env \<lparr> openai_create := (\<lambda>tr messages.
       if length (gen_calls tr) < n then
         Inr (ChatCompletion ''tool_calls''
                (ChatCompletionMessage None
                   (Some [ToolCall ''call_x'' ''delete_everything'' ''{}''])))
       else
         Inr (ChatCompletion ''stop'' (ChatCompletionMessage (Some ''Done.'') None))) \<rparr>"

text \<open>The model asks for an unknown tool every time.\<close>

definition endless_env :: env where
  "endless_env =
     plain_env \<lparr> openai_create := (\<lambda>tr messages.
       Inr (ChatCompletion ''tool_calls''
              (ChatCompletionMessage None
                 (Some [ToolCall ''call_x'' ''delete_everything'' ''{}''])))) \<rparr>"




definition joshua :: me where
  "joshua = \<lparr> name = ''Joshua'', linkedin = ''LinkedIn text'', resume = ''Resume text'',
              summary = ''Summary text'' \<rparr>"

section \<open>Properties\<close>

subsection \<open>Traces\<close>

lemma gen_calls_append: "gen_calls (xs @ ys) = gen_calls xs @ gen_calls ys"
  by (induction xs rule: gen_calls.induct) simp_all

lemma retries_append: "retries (xs @ ys) = retries xs @ retries ys"
  by (induction xs rule: retries.induct) simp_all

lemma eval_calls_append: "eval_calls (xs @ ys) = eval_calls xs @ eval_calls ys"
  by (induction xs rule: eval_calls.induct) simp_all

lemma anthropic_posts_append: "anthropic_posts (xs @ ys) = anthropic_posts xs @ anthropic_posts ys"
  by (induction xs rule: anthropic_posts.induct) simp_all

lemma invokes_append: "invokes (xs @ ys) = invokes xs @ invokes ys"
  by (induction xs rule: invokes.induct) simp_all

lemmas trace_append = gen_calls_append retries_append eval_calls_append anthropic_posts_append
  invokes_append

lemma pushover_posts_quiet:
  "gen_calls (map PushoverPost ps) = [] \<and> retries (map PushoverPost ps) = []
   \<and> eval_calls (map PushoverPost ps) = [] \<and> anthropic_posts (map PushoverPost ps) = []
   \<and> invokes (map PushoverPost ps) = []"
  by (induction ps) simp_all

lemma tool_events_Nil: "tool_events []"
  by (simp add: tool_events_def)

lemma tool_events_append: "tool_events (xs @ ys) = (tool_events xs \<and> tool_events ys)"
  by (auto simp: tool_events_def trace_append)

subsection \<open>Tool dispatch\<close>

lemma call_global_trace:
  "call_global g n a tr = (x, tr') \<Longrightarrow> \<exists>new. tr' = tr @ new \<and> tool_events new"
  by (auto simp: call_global_def tool_events_def trace_append pushover_posts_quiet
      split: json.splits gval.splits prod.splits)

lemma dispatch_trace:
  "dispatch E tc tr = (x, tr') \<Longrightarrow> \<exists>new. tr' = tr @ new \<and> tool_events new"
  by (auto simp: dispatch_def Let_def tool_events_Nil
      split: sum.splits option.splits if_splits prod.splits dest: call_global_trace)

lemma dispatch_result:
  "dispatch E tc tr = (Inr d, tr') \<Longrightarrow> role d = ''tool'' \<and> tool_call_id d = Some (tc_id tc)"
  by (auto simp: dispatch_def Let_def split: sum.splits option.splits if_splits prod.splits)

lemma tool_loop_trace:
  "tool_loop E tcs acc tr = (x, tr') \<Longrightarrow> \<exists>new. tr' = tr @ new \<and> tool_events new"
proof (induction tcs arbitrary: acc tr)
  case Nil
  then show ?case by (simp add: tool_events_Nil)
next
  case (Cons tc tcs)
  obtain y tr1 where d: "dispatch E tc tr = (y, tr1)" by (cases "dispatch E tc tr")
  from dispatch_trace [OF d] obtain n1 where n1: "tr1 = tr @ n1" "tool_events n1" by blast
  show ?case
  proof (cases y)
    case (Inl e)
    with Cons.prems d n1 show ?thesis by auto
  next
    case (Inr r)
    with Cons.prems d have "tool_loop E tcs (acc @ [r]) tr1 = (x, tr')" by simp
    from Cons.IH [OF this] obtain n2 where "tr' = tr1 @ n2" "tool_events n2" by blast
    with n1 show ?thesis by (auto simp: tool_events_append)
  qed
qed

lemma tool_loop_results:
  "tool_loop E tcs acc tr = (Inr rs, tr') \<Longrightarrow>
     \<exists>rs'. rs = acc @ rs' \<and> map tool_call_id rs' = map (\<lambda>tc. Some (tc_id tc)) tcs
        \<and> map role rs' = map (\<lambda>tc. ''tool'') tcs"
proof (induction tcs arbitrary: acc tr)
  case Nil
  then show ?case by simp
next
  case (Cons tc tcs)
  obtain y tr1 where d: "dispatch E tc tr = (y, tr1)" by (cases "dispatch E tc tr")
  show ?case
  proof (cases y)
    case (Inl e)
    with Cons.prems d show ?thesis by simp
  next
    case (Inr r)
    with Cons.prems d have "tool_loop E tcs (acc @ [r]) tr1 = (Inr rs, tr')" by simp
    from Cons.IH [OF this] obtain rs' where rs': "rs = (acc @ [r]) @ rs'"
      "map tool_call_id rs' = map (\<lambda>tc. Some (tc_id tc)) tcs"
      "map role rs' = map (\<lambda>tc. ''tool'') tcs" by blast
    from d Inr have "role r = ''tool'' \<and> tool_call_id r = Some (tc_id tc)"
      by (simp add: dispatch_result)
    with rs' show ?thesis by (intro exI [of _ "r # rs'"]) simp
  qed
qed

lemma handle_tool_call_trace:
  "handle_tool_call E tcs tr = (x, tr') \<Longrightarrow> \<exists>new. tr' = tr @ new \<and> tool_events new"
  unfolding handle_tool_call_def by (rule tool_loop_trace)

lemma handle_tool_call_results:
  "handle_tool_call E tcs tr = (Inr rs, tr') \<Longrightarrow>
     map tool_call_id rs = map (\<lambda>tc. Some (tc_id tc)) tcs \<and> map role rs = map (\<lambda>tc. ''tool'') tcs"
  unfolding handle_tool_call_def by (drule tool_loop_results) auto

subsection \<open>The history for the evaluator\<close>


lemma eval_history_of_obj: "Obj c \<in> set ms \<Longrightarrow> eval_history_of ms = Inl not_subscriptable"
proof (induction ms)
  case Nil
  then show ?case by simp
next
  case (Cons m ms)
  then show ?case by (cases m) (auto split: sum.splits)
qed


subsection \<open>The generation loop\<close>

lemma gen_loop_final:
  "openai_create E tr msgs = Inr r \<Longrightarrow> finish_reason r \<noteq> ''tool_calls'' \<Longrightarrow>
     gen_loop E msgs tr = Some (Inr (r, msgs), tr @ [GenCall msgs])"
  by (subst gen_loop.simps) simp

lemma gen_loop_raise:
  "openai_create E tr msgs = Inl e \<Longrightarrow> gen_loop E msgs tr = Some (Inl e, tr @ [GenCall msgs])"
  by (subst gen_loop.simps) simp

lemma gen_loop_tools:
  "openai_create E tr msgs = Inr r \<Longrightarrow> finish_reason r = ''tool_calls'' \<Longrightarrow>
   tool_calls (choice_message r) = Some tcs \<Longrightarrow>
   handle_tool_call E tcs (tr @ [GenCall msgs]) = (Inr results, tr') \<Longrightarrow>
     gen_loop E msgs tr = gen_loop E (msgs @ [Obj (choice_message r)] @ map Dict results) tr'"
  by (subst gen_loop.simps) simp


lemma gen_loop_post: "gen_loop E msgs tr = Some y \<Longrightarrow> loop_post E msgs tr y"
proof (erule gen_loop.raw_induct [rotated])
  fix gl :: "env \<Rightarrow> message list \<Rightarrow> trace \<Rightarrow> ((exn + chat_completion \<times> message list) \<times> trace) option"
  fix E msgs tr y
  assume IH: "\<And>E msgs tr y. gl E msgs tr = Some y \<Longrightarrow> loop_post E msgs tr y"
  assume step: "(case openai_create E tr msgs of
        Inl e \<Rightarrow> Some (Inl e, tr @ [GenCall msgs])
      | Inr response \<Rightarrow>
          if finish_reason response = ''tool_calls'' then
            (case tool_calls (choice_message response) of
               None \<Rightarrow> Some (Inl not_iterable, tr @ [GenCall msgs])
             | Some tcs \<Rightarrow>
                 (case handle_tool_call E tcs (tr @ [GenCall msgs]) of
                    (Inl e, tr') \<Rightarrow> Some (Inl e, tr')
                  | (Inr results, tr') \<Rightarrow>
                      gl E (msgs @ [Obj (choice_message response)] @ map Dict results) tr'))
          else Some (Inr (response, msgs), tr @ [GenCall msgs])) = Some y"
  show "loop_post E msgs tr y"
  proof (cases "openai_create E tr msgs")
    case (Inl e)
    with step show ?thesis by (auto simp: loop_post_def)
  next
    case (Inr r)
    show ?thesis
    proof (cases "finish_reason r = ''tool_calls''")
      case False
      with step Inr show ?thesis by (auto simp: loop_post_def)
    next
      case True
      show ?thesis
      proof (cases "tool_calls (choice_message r)")
        case None
        with step Inr True show ?thesis by (auto simp: loop_post_def)
      next
        case (Some tcs)
        obtain x tr1 where h: "handle_tool_call E tcs (tr @ [GenCall msgs]) = (x, tr1)"
          by (cases "handle_tool_call E tcs (tr @ [GenCall msgs])")
        from handle_tool_call_trace [OF h] obtain n1
          where n1: "tr1 = (tr @ [GenCall msgs]) @ n1" "tool_events n1" by blast
        show ?thesis
        proof (cases x)
          case (Inl e)
          with step Inr True Some h n1 show ?thesis
            by (auto simp: loop_post_def tool_events_def)
        next
          case results: (Inr results)
          with step Inr True Some h
          have "gl E (msgs @ [Obj (choice_message r)] @ map Dict results) tr1 = Some y" by simp
          from IH [OF this]
          have p: "loop_post E (msgs @ [Obj (choice_message r)] @ map Dict results) tr1 y" .
          then obtain new where new: "snd y = tr1 @ GenCall (msgs @ [Obj (choice_message r)] @ map Dict results) # new"
            "retries new = []" "eval_calls new = []" "anthropic_posts new = []"
            unfolding loop_post_def by blast
          have a: "\<exists>new. snd y = tr @ GenCall msgs # new \<and> retries new = [] \<and> eval_calls new = []
              \<and> anthropic_posts new = []"
            using new n1 by (auto simp: tool_events_def trace_append)
          have b: "\<forall>r' msgs'. fst y = Inr (r', msgs') \<longrightarrow>
            finish_reason r' \<noteq> ''tool_calls''
            \<and> ((msgs' = msgs \<and> snd y = tr @ [GenCall msgs] \<and> openai_create E tr msgs = Inr r')
                \<or> (\<exists>c suffix. msgs' = msgs @ Obj c # suffix))"
            using p unfolding loop_post_def by auto
          from a b show ?thesis unfolding loop_post_def by blast
        qed
      qed
    qed
  qed
qed

lemma gen_loop_trace:
  "gen_loop E msgs tr = Some (x, tr') \<Longrightarrow>
     \<exists>new. tr' = tr @ GenCall msgs # new \<and> retries new = [] \<and> eval_calls new = []
       \<and> anthropic_posts new = []"
  by (drule gen_loop_post) (simp add: loop_post_def)

lemma gen_loop_finish:
  "gen_loop E msgs tr = Some (Inr (r, msgs'), tr') \<Longrightarrow> finish_reason r \<noteq> ''tool_calls''"
  by (drule gen_loop_post) (simp add: loop_post_def)

lemma gen_loop_cases:
  "gen_loop E msgs tr = Some (Inr (r, msgs'), tr') \<Longrightarrow>
     (msgs' = msgs \<and> tr' = tr @ [GenCall msgs] \<and> openai_create E tr msgs = Inr r)
     \<or> (\<exists>c suffix. msgs' = msgs @ Obj c # suffix)"
  by (drule gen_loop_post) (simp add: loop_post_def)

subsection \<open>The evaluator\<close>


subsection \<open>One attempt\<close>



lemma attempt_after_tools:
  assumes "gen_loop E msgs tr = Some (Inr (r, msgs'), tr')" and "Obj c \<in> set msgs'"
  shows "attempt E msgs message tr = Some (Inl not_subscriptable, tr')"
  using assms by (simp add: attempt_def eval_history_of_obj Let_def)


subsection \<open>The retry loop, one round at a time\<close>





lemmas example_defs = tool_round_env_def plain_env_def base_env_def rejecting_env_def
  app_globals_def record_user_details_global_def record_unknown_question_global_def push_global_def
  bind_kwargs_def call_global_def record_user_details_def record_unknown_question_def push_def
  falsy_str_def fmt_def example_loads_def example_dumps_def example_str_def example_others_def
  dumps_result_def gval_truthy_def handle_tool_call_def dispatch_def


subsection \<open>Traces of an attempt and of the retry loop\<close>







subsection \<open>The loop over the tool calls\<close>




subsection \<open>Tool messages and the calls they answer\<close>

lemma tools_matched_append:
  "tools_matched seen (xs @ ys) = (tools_matched seen xs \<and> tools_matched (seen @ seen_ids xs) ys)"
proof (induction xs arbitrary: seen)
  case Nil
  then show ?case by simp
next
  case (Cons m xs)
  then show ?case by (cases m) auto
qed

lemma tools_matched_dicts:
  "list_all (\<lambda>d. case tool_call_id d of None \<Rightarrow> False | Some i \<Rightarrow> i \<in> set seen) ds
     \<Longrightarrow> tools_matched seen (map Dict ds)"
  by (induction ds) (auto split: option.splits)

lemma tools_matched_plain:
  "list_all (\<lambda>d. role d \<noteq> ''tool'') ds \<Longrightarrow> tools_matched seen (map Dict ds)"
  by (induction ds) auto

lemma results_matched:
  assumes "map tool_call_id results = map (\<lambda>tc. Some (tc_id tc)) tcs"
  shows "list_all (\<lambda>d. case tool_call_id d of None \<Rightarrow> False | Some i \<Rightarrow> i \<in> set (seen @ map tc_id tcs)) results"
proof -
  have "tool_call_id d \<in> (\<lambda>tc. Some (tc_id tc)) ` set tcs" if "d \<in> set results" for d
  proof -
    from that have "tool_call_id d \<in> set (map tool_call_id results)" by simp
    then show ?thesis unfolding assms by simp
  qed
  then show ?thesis by (fastforce simp: list_all_iff split: option.splits)
qed

lemma round_matched:
  assumes "tools_matched [] msgs" and "tool_calls c = Some tcs"
    and "map tool_call_id results = map (\<lambda>tc. Some (tc_id tc)) tcs"
  shows "tools_matched [] (msgs @ [Obj c] @ map Dict results)"
  using assms results_matched [OF assms(3), of "seen_ids msgs"]
  by (simp add: tools_matched_append call_ids_def tools_matched_dicts)

lemma gen_loop_inv: "gen_loop E msgs tr = Some y \<Longrightarrow> loop_inv msgs tr y"
proof (erule gen_loop.raw_induct [rotated])
  fix gl :: "env \<Rightarrow> message list \<Rightarrow> trace \<Rightarrow> ((exn + chat_completion \<times> message list) \<times> trace) option"
  fix E msgs tr y
  assume IH: "\<And>E msgs tr y. gl E msgs tr = Some y \<Longrightarrow> loop_inv msgs tr y"
  assume step: "(case openai_create E tr msgs of
        Inl e \<Rightarrow> Some (Inl e, tr @ [GenCall msgs])
      | Inr response \<Rightarrow>
          if finish_reason response = ''tool_calls'' then
            (case tool_calls (choice_message response) of
               None \<Rightarrow> Some (Inl not_iterable, tr @ [GenCall msgs])
             | Some tcs \<Rightarrow>
                 (case handle_tool_call E tcs (tr @ [GenCall msgs]) of
                    (Inl e, tr') \<Rightarrow> Some (Inl e, tr')
                  | (Inr results, tr') \<Rightarrow>
                      gl E (msgs @ [Obj (choice_message response)] @ map Dict results) tr'))
          else Some (Inr (response, msgs), tr @ [GenCall msgs])) = Some y"
  show "loop_inv msgs tr y"
  proof (cases "openai_create E tr msgs")
    case (Inl e)
    with step show ?thesis by (auto simp: loop_inv_def)
  next
    case (Inr r)
    show ?thesis
    proof (cases "finish_reason r = ''tool_calls''")
      case False
      with step Inr show ?thesis by (auto simp: loop_inv_def)
    next
      case True
      show ?thesis
      proof (cases "tool_calls (choice_message r)")
        case None
        with step Inr True show ?thesis by (auto simp: loop_inv_def)
      next
        case (Some tcs)
        obtain x tr1 where h: "handle_tool_call E tcs (tr @ [GenCall msgs]) = (x, tr1)"
          by (cases "handle_tool_call E tcs (tr @ [GenCall msgs])")
        from handle_tool_call_trace [OF h] obtain n1
          where n1: "tr1 = (tr @ [GenCall msgs]) @ n1" "tool_events n1" by blast
        show ?thesis
        proof (cases x)
          case (Inl e)
          with step Inr True Some h n1 show ?thesis
            by (auto simp: loop_inv_def tool_events_def trace_append)
        next
          case results: (Inr results)
          let ?next = "msgs @ [Obj (choice_message r)] @ map Dict results"
          from step Inr True Some h results have "gl E ?next tr1 = Some y" by simp
          from IH [OF this] have p: "loop_inv ?next tr1 y" .
          show ?thesis unfolding loop_inv_def
          proof
            assume m: "tools_matched [] msgs"
            from h results have "map tool_call_id results = map (\<lambda>tc. Some (tc_id tc)) tcs"
              by (simp add: handle_tool_call_results)
            from round_matched [OF m Some this] have "tools_matched [] ?next" .
            with p obtain new where new: "snd y = tr1 @ new" "list_all (tools_matched []) (gen_calls new)"
              and fin: "\<forall>r msgs'. fst y = Inr (r, msgs') \<longrightarrow> tools_matched [] msgs'"
              unfolding loop_inv_def by blast
            from new n1 m have "snd y = tr @ (GenCall msgs # n1 @ new)
                \<and> list_all (tools_matched []) (gen_calls (GenCall msgs # n1 @ new))"
              by (simp add: tool_events_def trace_append)
            with fin show "(\<exists>new. snd y = tr @ new \<and> list_all (tools_matched []) (gen_calls new))
                \<and> (\<forall>r msgs'. fst y = Inr (r, msgs') \<longrightarrow> tools_matched [] msgs')"
              by blast
          qed
        qed
      qed
    qed
  qed
qed

subsection \<open>A model that keeps asking for tools\<close>

lemma rounds_env_tool_round:
  "handle_tool_call (rounds_env n) [ToolCall ''call_x'' ''delete_everything'' ''{}''] tr =
     (Inr [DictMsg ''tool'' ''{}'' (Some ''call_x'')], tr)"
  by (simp add: handle_tool_call_def dispatch_def dumps_result_def rounds_env_def plain_env_def
      base_env_def app_globals_def example_others_def example_loads_def example_dumps_def)

lemma rounds_env_loop:
  "k = n - length (gen_calls tr) \<Longrightarrow> length (gen_calls tr) \<le> n \<Longrightarrow>
     \<exists>r msgs' tr'. gen_loop (rounds_env n) msgs tr = Some (Inr (r, msgs'), tr')
        \<and> length (gen_calls tr') = n + 1"
proof (induction k arbitrary: msgs tr)
  case 0
  then have "length (gen_calls tr) = n" by simp
  then have "gen_loop (rounds_env n) msgs tr =
      Some (Inr (ChatCompletion ''stop'' (ChatCompletionMessage (Some ''Done.'') None), msgs),
            tr @ [GenCall msgs])"
    by (intro gen_loop_final) (simp_all add: rounds_env_def)
  with \<open>length (gen_calls tr) = n\<close> show ?case by (simp add: trace_append)
next
  case (Suc k)
  then have lt: "length (gen_calls tr) < n" by simp
  let ?tc = "ToolCall ''call_x'' ''delete_everything'' ''{}''"
  let ?r = "ChatCompletion ''tool_calls'' (ChatCompletionMessage None (Some [?tc]))"
  let ?next = "msgs @ [Obj (choice_message ?r)] @ map Dict [DictMsg ''tool'' ''{}'' (Some ''call_x'')]"
  from lt have o: "openai_create (rounds_env n) tr msgs = Inr ?r" by (simp add: rounds_env_def)
  have "gen_loop (rounds_env n) msgs tr = gen_loop (rounds_env n) ?next (tr @ [GenCall msgs])"
    by (rule gen_loop_tools [OF o _ _ rounds_env_tool_round]) simp_all
  moreover from Suc.prems lt
  have "k = n - length (gen_calls (tr @ [GenCall msgs]))" "length (gen_calls (tr @ [GenCall msgs])) \<le> n"
    by (simp_all add: trace_append)
  from Suc.IH [OF this, of ?next]
  obtain r msgs' tr' where "gen_loop (rounds_env n) ?next (tr @ [GenCall msgs]) = Some (Inr (r, msgs'), tr')"
    "length (gen_calls tr') = n + 1" by blast
  ultimately show ?case by simp
qed

lemma never_final:
  assumes always: "\<And>tr msgs. \<exists>c tcs rs tr'.
      openai_create E tr msgs = Inr (ChatCompletion ''tool_calls'' (ChatCompletionMessage c (Some tcs)))
      \<and> handle_tool_call E tcs (tr @ [GenCall msgs]) = (Inr rs, tr')"
  shows "gen_loop E msgs tr = None"
proof (rule ccontr)
  assume "gen_loop E msgs tr \<noteq> None"
  then obtain y where y: "gen_loop E msgs tr = Some y" by auto
  have "gen_loop E' msgs tr = Some y \<Longrightarrow> E' = E \<longrightarrow> False" for E'
  proof (erule gen_loop.raw_induct [rotated])
    fix gl :: "env \<Rightarrow> message list \<Rightarrow> trace \<Rightarrow> ((exn + chat_completion \<times> message list) \<times> trace) option"
    fix E' msgs tr y
    assume IH: "\<And>E' msgs tr y. gl E' msgs tr = Some y \<Longrightarrow> E' = E \<longrightarrow> False"
    assume step: "(case openai_create E' tr msgs of
        Inl e \<Rightarrow> Some (Inl e, tr @ [GenCall msgs])
      | Inr response \<Rightarrow>
          if finish_reason response = ''tool_calls'' then
            (case tool_calls (choice_message response) of
               None \<Rightarrow> Some (Inl not_iterable, tr @ [GenCall msgs])
             | Some tcs \<Rightarrow>
                 (case handle_tool_call E' tcs (tr @ [GenCall msgs]) of
                    (Inl e, tr') \<Rightarrow> Some (Inl e, tr')
                  | (Inr results, tr') \<Rightarrow>
                      gl E' (msgs @ [Obj (choice_message response)] @ map Dict results) tr'))
          else Some (Inr (response, msgs), tr @ [GenCall msgs])) = Some y"
    show "E' = E \<longrightarrow> False"
    proof
      assume "E' = E"
      from always [of tr msgs] obtain c tcs rs tr' where
        "openai_create E tr msgs = Inr (ChatCompletion ''tool_calls'' (ChatCompletionMessage c (Some tcs)))"
        "handle_tool_call E tcs (tr @ [GenCall msgs]) = (Inr rs, tr')" by blast
      with step \<open>E' = E\<close>
      have "gl E (msgs @ [Obj (ChatCompletionMessage c (Some tcs))] @ map Dict rs) tr' = Some y"
        by simp
      from IH [OF this] show False by simp
    qed
  qed
  from this [OF y] show False by simp
qed

subsection \<open>Filling the missing fields\<close>





section \<open>The claims\<close>

subsection \<open>Claim C1: an evaluator that always rejects\<close>



subsection \<open>Claim C2: the evaluator never rejects by failing\<close>




subsection \<open>Claim C3: no evaluator key, no retry\<close>



subsection \<open>Claim C4: the messages of a retry round\<close>



subsection \<open>Claim C5: the generation loop has no bound of its own\<close>

text \<open>
  C5. The loop \<open>while not done\<close> has no limit on its rounds. For every bound \<open>N\<close> there
  are answers of the model, the first \<open>N + 1\<close> of them tool requests, under which the
  loop makes \<open>N + 2\<close> requests before it ends. The loop returns a response only when its
  finish reason is not \<open>tool_calls\<close>; and if the model asks for tools every time, and the
  tools run, the loop never ends.
\<close>

theorem generation_loop_has_no_bound:
  "(\<forall>N. \<exists>r msgs' tr'.
        gen_loop (rounds_env (N + 1)) msgs [] = Some (Inr (r, msgs'), tr')
      \<and> length (gen_calls tr') = N + 2
      \<and> (\<forall>tr ms. length (gen_calls tr) \<le> N \<longrightarrow>
            (\<exists>r. openai_create (rounds_env (N + 1)) tr ms = Inr r \<and> finish_reason r = ''tool_calls'')))
   \<and> (\<forall>E ms tr r msgs' tr'.
        gen_loop E ms tr = Some (Inr (r, msgs'), tr') \<longrightarrow> finish_reason r \<noteq> ''tool_calls'')
   \<and> (\<forall>E. (\<forall>tr ms. \<exists>c tcs rs tr'.
              openai_create E tr ms =
                Inr (ChatCompletion ''tool_calls'' (ChatCompletionMessage c (Some tcs)))
              \<and> handle_tool_call E tcs (tr @ [GenCall ms]) = (Inr rs, tr'))
          \<longrightarrow> (\<forall>ms tr. gen_loop E ms tr = None))"
proof -
  have a: "\<exists>r msgs' tr'.
        gen_loop (rounds_env (N + 1)) msgs [] = Some (Inr (r, msgs'), tr')
      \<and> length (gen_calls tr') = N + 2
      \<and> (\<forall>tr ms. length (gen_calls tr) \<le> N \<longrightarrow>
            (\<exists>r. openai_create (rounds_env (N + 1)) tr ms = Inr r \<and> finish_reason r = ''tool_calls''))"
    for N
    using rounds_env_loop [of "N + 1" "N + 1" "[]" msgs] by (auto simp: rounds_env_def)
  have b: "finish_reason r \<noteq> ''tool_calls''"
    if "gen_loop E ms tr = Some (Inr (r, msgs'), tr')" for E ms tr r msgs' tr'
    using that by (rule gen_loop_finish)
  have c: "gen_loop E ms tr = None"
    if "\<forall>tr ms. \<exists>c tcs rs tr'.
              openai_create E tr ms =
                Inr (ChatCompletion ''tool_calls'' (ChatCompletionMessage c (Some tcs)))
              \<and> handle_tool_call E tcs (tr @ [GenCall ms]) = (Inr rs, tr')" for E ms tr
    by (rule never_final) (use that in blast)
  from a b c show ?thesis by blast
qed

theorem generation_loop_has_no_bound_witness:
  "\<exists>r msgs' tr'.
      gen_loop (rounds_env 11) [Dict (DictMsg ''user'' ''Delete it all'' None)] [] =
        Some (Inr (r, msgs'), tr')
    \<and> length (gen_calls tr') = 12
    \<and> finish_reason r \<noteq> ''tool_calls''
    \<and> gen_loop endless_env [Dict (DictMsg ''user'' ''Delete it all'' None)] [] = None"
proof -
  note th = generation_loop_has_no_bound [of "[Dict (DictMsg ''user'' ''Delete it all'' None)]"]
  from th [THEN conjunct1, rule_format, of 10]
  obtain r msgs' tr' where g:
    "gen_loop (rounds_env 11) [Dict (DictMsg ''user'' ''Delete it all'' None)] [] = Some (Inr (r, msgs'), tr')"
    "length (gen_calls tr') = 12"
    by auto
  from th [THEN conjunct2, THEN conjunct1, rule_format, OF g(1)]
  have f: "finish_reason r \<noteq> ''tool_calls''" .
  let ?E = "endless_env"
  have "\<forall>tr ms. \<exists>c tcs rs tr'.
              openai_create ?E tr ms =
                Inr (ChatCompletion ''tool_calls'' (ChatCompletionMessage c (Some tcs)))
              \<and> handle_tool_call ?E tcs (tr @ [GenCall ms]) = (Inr rs, tr')"
    by (simp add: handle_tool_call_def dispatch_def dumps_result_def endless_env_def plain_env_def
      base_env_def app_globals_def example_others_def example_loads_def example_dumps_def)
  from th [THEN conjunct2, THEN conjunct2, THEN spec, THEN mp, OF this]
  have "gen_loop ?E [Dict (DictMsg ''user'' ''Delete it all'' None)] [] = None" by blast
  with g f show ?thesis by blast
qed

subsection \<open>Claim C6: a tool name that is not bound\<close>



subsection \<open>Claim C7: arguments that do not decode\<close>



subsection \<open>Claim C8: the history handed to the evaluator\<close>

text \<open>
  C8. The claim: for every generation attempt, also one in which the model issued tool
  calls, \<open>chat\<close> passes the full message sequence of the attempt to the evaluator and
  the turn completes normally, returning the generator's final text. The code does not
  do this after a tool round. The assistant message of the round is appended to
  \<open>messages\<close> as the library's object, and the filter that builds the history
  subscripts every element with \<open>["role"]\<close>. So whenever the first answer of the model
  asks for tools, the tools run and the loop then ends, \<open>chat\<close> raises TypeError at the
  filter: the evaluator is never called and no reply is returned.
\<close>

theorem chat_raises_after_tool_round:
  assumes "openai_create E tr (initial_messages (system_prompt self) history message) = Inr r"
    and "finish_reason r = ''tool_calls''"
    and "tool_calls (choice_message r) = Some tcs"
    and "handle_tool_call E tcs (tr @ [GenCall (initial_messages (system_prompt self) history message)])
           = (Inr results, tr1)"
    and "gen_loop E (initial_messages (system_prompt self) history message
                     @ [Obj (choice_message r)] @ map Dict results) tr1
           = Some (Inr (r', msgs'), tr2)"
  shows "chat E self message history tr = Some (Inl not_subscriptable, tr2)
     \<and> eval_calls tr2 = eval_calls tr"
proof -
  let ?init = "initial_messages (system_prompt self) history message"
  from assms have g: "gen_loop E ?init tr = Some (Inr (r', msgs'), tr2)"
    by (simp add: gen_loop_tools)
  from gen_loop_cases [OF assms(5)] have "Obj (choice_message r) \<in> set msgs'" by auto
  from attempt_after_tools [OF g this]
  have "chat E self message history tr = Some (Inl not_subscriptable, tr2)"
    by (simp add: chat_def Let_def)
  moreover from gen_loop_trace [OF g] have "eval_calls tr2 = eval_calls tr"
    by (auto simp: trace_append)
  ultimately show ?thesis by simp
qed

theorem chat_raises_after_tool_round_witness:
  "chat tool_round_env joshua ''My email is a@b.com, please keep in touch'' [] [] =
     Some (Inl not_subscriptable,
       [GenCall (initial_messages (system_prompt joshua) [] ''My email is a@b.com, please keep in touch''),
        Invoke ''record_user_details'' [(''email'', JStr ''a@b.com'')],
        PushoverPost (JStr ''New contact: Name not provided\<newline>Email: a@b.com\<newline>Notes: not provided''),
        GenCall (initial_messages (system_prompt joshua) [] ''My email is a@b.com, please keep in touch''
          @ [Obj (ChatCompletionMessage None
                   (Some [ToolCall ''call_1'' ''record_user_details'' ''{\"email\": \"a@b.com\"}''])),
             Dict (DictMsg ''tool'' ''{\"recorded\": \"ok\"}'' (Some ''call_1''))])])"
proof -
  let ?msg = "''My email is a@b.com, please keep in touch''"
  let ?init = "initial_messages (system_prompt joshua) [] ?msg"
  let ?call = "ToolCall ''call_1'' ''record_user_details'' ''{\"email\": \"a@b.com\"}''"
  let ?r = "ChatCompletion ''tool_calls'' (ChatCompletionMessage None (Some [?call]))"
  let ?tr1 = "[GenCall ?init, Invoke ''record_user_details'' [(''email'', JStr ''a@b.com'')],
        PushoverPost (JStr ''New contact: Name not provided\<newline>Email: a@b.com\<newline>Notes: not provided'')]"
  let ?res = "[DictMsg ''tool'' ''{\"recorded\": \"ok\"}'' (Some ''call_1'')]"
  have 1: "openai_create tool_round_env [] ?init = Inr ?r"
    by (simp add: tool_round_env_def)
  have 2: "handle_tool_call tool_round_env [?call] ([] @ [GenCall ?init]) = (Inr ?res, ?tr1)"
    by (simp add: example_defs)
  have 3: "gen_loop tool_round_env (?init @ [Obj (choice_message ?r)] @ map Dict ?res) ?tr1 =
      Some (Inr (ChatCompletion ''stop'' (ChatCompletionMessage (Some ''Thanks, I will be in touch.'') None),
                 ?init @ [Obj (choice_message ?r)] @ map Dict ?res),
            ?tr1 @ [GenCall (?init @ [Obj (choice_message ?r)] @ map Dict ?res)])"
    by (rule gen_loop_final) (simp_all add: tool_round_env_def)
  from chat_raises_after_tool_round [OF 1 _ _ 2 3] show ?thesis by simp
qed

subsection \<open>Claim C9: every call is answered by one tool message\<close>

text \<open>
  C9. When \<open>handle_tool_call\<close> returns, its results answer the calls one for one, in
  order: the i-th result has the role \<open>tool\<close> and the id of the i-th call. No request to
  the model is made meanwhile, and the loop goes on from the messages so far, followed
  by the assistant message that holds the calls, followed by these results. Hence, in
  every run of the loop that ends and starts from a sequence in which each tool message
  follows an assistant message holding a call with its id, every request sent to the
  model and the final sequence have this property too. The sequence \<open>chat\<close> starts
  from has the property when the history holds no tool message.
\<close>

theorem tool_messages_answer_their_calls:
  "(handle_tool_call E tcs tr = (Inr results, tr') \<longrightarrow>
        map tool_call_id results = map (\<lambda>tc. Some (tc_id tc)) tcs
      \<and> map role results = map (\<lambda>tc. ''tool'') tcs
      \<and> (\<exists>new. tr' = tr @ new \<and> gen_calls new = [])
      \<and> (\<forall>tr0 msgs r.
            openai_create E tr0 msgs = Inr r \<and> finish_reason r = ''tool_calls''
            \<and> tool_calls (choice_message r) = Some tcs \<and> tr = tr0 @ [GenCall msgs] \<longrightarrow>
            gen_loop E msgs tr0 =
              gen_loop E (msgs @ [Obj (choice_message r)] @ map Dict results) tr'))
   \<and> (tools_matched [] msgs1 \<and> gen_loop E msgs1 tr1 = Some (y, tr2) \<longrightarrow>
        (\<exists>new. tr2 = tr1 @ new \<and> list_all (tools_matched []) (gen_calls new))
      \<and> (\<forall>r msgs'. y = Inr (r, msgs') \<longrightarrow> tools_matched [] msgs'))
   \<and> (list_all (\<lambda>d. role d \<noteq> ''tool'') history \<longrightarrow>
        tools_matched [] (initial_messages sys history message))"
proof -
  have a: "map tool_call_id results = map (\<lambda>tc. Some (tc_id tc)) tcs
      \<and> map role results = map (\<lambda>tc. ''tool'') tcs
      \<and> (\<exists>new. tr' = tr @ new \<and> gen_calls new = [])
      \<and> (\<forall>tr0 msgs r.
            openai_create E tr0 msgs = Inr r \<and> finish_reason r = ''tool_calls''
            \<and> tool_calls (choice_message r) = Some tcs \<and> tr = tr0 @ [GenCall msgs] \<longrightarrow>
            gen_loop E msgs tr0 =
              gen_loop E (msgs @ [Obj (choice_message r)] @ map Dict results) tr')"
    if h: "handle_tool_call E tcs tr = (Inr results, tr')"
  proof -
    from handle_tool_call_trace [OF h] have "\<exists>new. tr' = tr @ new \<and> gen_calls new = []"
      by (auto simp: tool_events_def)
    moreover have "gen_loop E msgs tr0 =
              gen_loop E (msgs @ [Obj (choice_message r)] @ map Dict results) tr'"
      if "openai_create E tr0 msgs = Inr r \<and> finish_reason r = ''tool_calls''
            \<and> tool_calls (choice_message r) = Some tcs \<and> tr = tr0 @ [GenCall msgs]" for tr0 msgs r
      using that h gen_loop_tools [of E tr0 msgs r tcs results tr'] by simp
    ultimately show ?thesis using handle_tool_call_results [OF h] by blast
  qed
  have b: "(\<exists>new. tr2 = tr1 @ new \<and> list_all (tools_matched []) (gen_calls new))
      \<and> (\<forall>r msgs'. y = Inr (r, msgs') \<longrightarrow> tools_matched [] msgs')"
    if "tools_matched [] msgs1 \<and> gen_loop E msgs1 tr1 = Some (y, tr2)"
    using that gen_loop_inv [of E msgs1 tr1 "(y, tr2)"] by (simp add: loop_inv_def)
  have c: "tools_matched [] (initial_messages sys history message)"
    if "list_all (\<lambda>d. role d \<noteq> ''tool'') history"
    using that
    by (simp add: initial_messages_def tools_matched_append tools_matched_plain)
  from a b c show ?thesis by blast
qed

theorem tool_messages_answer_their_calls_witness:
  "handle_tool_call tool_round_env
       [ToolCall ''call_1'' ''record_user_details'' ''{\"email\": \"a@b.com\"}'']
       [GenCall (initial_messages (system_prompt joshua) [] ''My email is a@b.com'')] =
     (Inr [DictMsg ''tool'' ''{\"recorded\": \"ok\"}'' (Some ''call_1'')],
      [GenCall (initial_messages (system_prompt joshua) [] ''My email is a@b.com''),
       Invoke ''record_user_details'' [(''email'', JStr ''a@b.com'')],
       PushoverPost (JStr ''New contact: Name not provided\<newline>Email: a@b.com\<newline>Notes: not provided'')])
   \<and> tools_matched [] (initial_messages (system_prompt joshua) [] ''My email is a@b.com'')
   \<and> (\<exists>r tr2.
         gen_loop tool_round_env (initial_messages (system_prompt joshua) [] ''My email is a@b.com'') [] =
           Some (Inr (r, initial_messages (system_prompt joshua) [] ''My email is a@b.com''
                       @ [Obj (ChatCompletionMessage None
                                 (Some [ToolCall ''call_1'' ''record_user_details'' ''{\"email\": \"a@b.com\"}''])),
                          Dict (DictMsg ''tool'' ''{\"recorded\": \"ok\"}'' (Some ''call_1''))]), tr2)
       \<and> length (gen_calls tr2) = 2
       \<and> list_all (tools_matched []) (gen_calls tr2))
   \<and> tools_matched []
        (initial_messages (system_prompt joshua) [] ''My email is a@b.com''
         @ [Obj (ChatCompletionMessage None
                   (Some [ToolCall ''call_1'' ''record_user_details'' ''{\"email\": \"a@b.com\"}''])),
            Dict (DictMsg ''tool'' ''{\"recorded\": \"ok\"}'' (Some ''call_1''))])"
proof -
  let ?init = "initial_messages (system_prompt joshua) [] ''My email is a@b.com''"
  let ?call = "ToolCall ''call_1'' ''record_user_details'' ''{\"email\": \"a@b.com\"}''"
  let ?r = "ChatCompletion ''tool_calls'' (ChatCompletionMessage None (Some [?call]))"
  let ?r' = "ChatCompletion ''stop'' (ChatCompletionMessage (Some ''Thanks, I will be in touch.'') None)"
  let ?tr1 = "[GenCall ?init, Invoke ''record_user_details'' [(''email'', JStr ''a@b.com'')],
        PushoverPost (JStr ''New contact: Name not provided\<newline>Email: a@b.com\<newline>Notes: not provided'')]"
  let ?res = "[DictMsg ''tool'' ''{\"recorded\": \"ok\"}'' (Some ''call_1'')]"
  let ?next = "?init @ [Obj (choice_message ?r)] @ map Dict ?res"
  have h: "handle_tool_call tool_round_env [?call] [GenCall ?init] = (Inr ?res, ?tr1)"
    by (simp add: example_defs)
  have m: "tools_matched [] ?init" by (simp add: initial_messages_def)
  have f: "gen_loop tool_round_env ?next ?tr1 = Some (Inr (?r', ?next), ?tr1 @ [GenCall ?next])"
    by (rule gen_loop_final) (simp_all add: tool_round_env_def)
  note th = tool_messages_answer_their_calls [of tool_round_env "[?call]" "[GenCall ?init]" ?res ?tr1
      ?init "[]" "Inr (?r', ?next)" "?tr1 @ [GenCall ?next]"]
  from th [THEN conjunct1, rule_format, OF h]
  have "gen_loop tool_round_env ?init [] = gen_loop tool_round_env ?next ?tr1"
    by (simp add: tool_round_env_def)
  with f have g: "gen_loop tool_round_env ?init [] = Some (Inr (?r', ?next), ?tr1 @ [GenCall ?next])"
    by simp
  from th [THEN conjunct2, THEN conjunct1, rule_format, OF conjI [OF m g]]
  have "list_all (tools_matched []) (gen_calls (?tr1 @ [GenCall ?next]))" "tools_matched [] ?next"
    by auto
  with h m g show ?thesis by (simp add: trace_append)
qed

subsection \<open>Claim C10: dispatch over the module's namespace\<close>




end
